theory Spec2Isabelle
  imports Main "HOL-Library.Monad_Syntax"
begin

section \<open>Temporal gap filling: \<open>interpolate_numba\<close> of \<open>1D_interpolation.ipynb\<close>\<close>

text \<open>
  The notebook runs on a Python 2.7 kernel (its metadata names \<open>python2\<close>, version 2.7.10)
  and has no \<open>from __future__ import division\<close>, so \<open>/\<close> between two integers is
  Python 2 integer division, which rounds towards minus infinity, like \<open>div\<close> on \<open>int\<close>.
  Every intermediate value is therefore an integer, and \<open>int(new_value)\<close> changes nothing.

  The function is compiled by numba in nopython mode: array elements are machine integers,
  integer arithmetic is done on 64-bit integers and wraps around, and storing into the
  \<open>int16\<close> result array keeps the low 16 bits of the value.
\<close>

subsection \<open>Machine integers\<close>

datatype dtype = Int8 | Int16 | Int32 | Int64

fun bits :: "dtype \<Rightarrow> nat" where
  "bits Int8 = 8"
| "bits Int16 = 16"
| "bits Int32 = 32"
| "bits Int64 = 64"

text \<open>The two's complement value of the low \<open>w\<close> bits of an integer (a truncating cast).\<close>

definition cast_int :: "nat \<Rightarrow> int \<Rightarrow> int" where
  "cast_int w v = (v + 2 ^ (w - 1)) mod 2 ^ w - 2 ^ (w - 1)"

definition representable :: "dtype \<Rightarrow> int \<Rightarrow> bool" where
  "representable dt v \<longleftrightarrow> - (2 ^ (bits dt - 1)) \<le> v \<and> v < 2 ^ (bits dt - 1)"

subsection \<open>Three-dimensional arrays\<close>

text \<open>
  A numpy array of shape \<open>(T, R, C)\<close>, indexed \<open>[z, y, x]\<close> (time, row, column), with
  its element type. Cells outside the shape are never read or written by the operations
  below.
\<close>

record ndarray =
  shape :: "nat \<times> nat \<times> nat"
  dtype :: dtype
  cells :: "nat \<times> nat \<times> nat \<Rightarrow> int"

definition valid_ndarray :: "ndarray \<Rightarrow> bool" where
  "valid_ndarray arr \<longleftrightarrow>
     (case shape arr of (T, R, C) \<Rightarrow>
        \<forall>z<T. \<forall>y<R. \<forall>x<C. representable (dtype arr) (cells arr (z, y, x)))"

text \<open>\<open>np.zeros_like(arr, dtype=dt)\<close>: a new array of the shape of \<open>arr\<close>, of element type \<open>dt\<close>.\<close>

definition zeros_like :: "ndarray \<Rightarrow> dtype \<Rightarrow> ndarray" where
  "zeros_like arr dt = \<lparr>shape = shape arr, dtype = dt, cells = (\<lambda>_. 0)\<rparr>"

text \<open>
  \<open>arr[z, y, x]\<close>. The time index is an integer, since the source computes \<open>z-1\<close>,
  \<open>z-2\<close>, \<open>z+1\<close> and \<open>z+2\<close>. A read is answered only for \<open>0 \<le> z < T\<close>, \<open>y < R\<close>,
  \<open>x < C\<close>; any other index is the failure \<open>None\<close>. (numpy would wrap a negative index
  around to the end of the axis and raise \<open>IndexError\<close> past the end; here both are
  failures, so a run that returns a result has read inside the array only.)
\<close>

definition getitem :: "ndarray \<Rightarrow> int \<Rightarrow> nat \<Rightarrow> nat \<Rightarrow> int option" where
  "getitem arr z y x =
     (case shape arr of (T, R, C) \<Rightarrow>
        if 0 \<le> z \<and> z < int T \<and> y < R \<and> x < C then Some (cells arr (nat z, y, x)) else None)"

text \<open>\<open>len(arr[:,0,0])\<close>: the slice needs a row 0 and a column 0; its length is \<open>T\<close>.\<close>

definition len_trace :: "ndarray \<Rightarrow> int option" where
  "len_trace arr =
     (case shape arr of (T, R, C) \<Rightarrow> if 0 < R \<and> 0 < C then Some (int T) else None)"

text \<open>\<open>result[z, y, x] = v\<close>: the value is cast to the element type of \<open>result\<close>.\<close>

definition setitem :: "ndarray \<Rightarrow> nat \<Rightarrow> nat \<Rightarrow> nat \<Rightarrow> int \<Rightarrow> ndarray option" where
  "setitem result z y x v =
     (case shape result of (T, R, C) \<Rightarrow>
        if z < T \<and> y < R \<and> x < C
        then Some (result\<lparr>cells := (cells result)((z, y, x) := cast_int (bits (dtype result)) v)\<rparr>)
        else None)"

subsection \<open>The kernel\<close>

text \<open>\<open>(a + b) / 2\<close> on 64-bit integers: the sum wraps around, the division rounds down.\<close>

definition mean2 :: "int \<Rightarrow> int \<Rightarrow> int" where
  "mean2 a b = cast_int 64 (a + b) div 2"

text \<open>
  The body of the innermost loop up to the store: the value \<open>new_value\<close> for position
  \<open>z\<close> of the trace at row \<open>y\<close>, column \<open>x\<close>. All reads are from \<open>arr\<close>. The
  \<open>and\<close> of the source evaluates its right operand only when the left one is true, so
  \<open>len(arr[:,0,0])\<close> in the third \<open>elif\<close> is evaluated only when \<open>right == no_data\<close>.
\<close>

definition new_value :: "ndarray \<Rightarrow> int \<Rightarrow> nat \<Rightarrow> nat \<Rightarrow> nat \<Rightarrow> int option" where
  "new_value arr no_data z y x = do {
     val \<leftarrow> getitem arr (int z) y x;
     if z = 0 then Some val
     else do {
       n \<leftarrow> len_trace arr;
       if int z = n - 1 then Some val
       else if val = no_data then do {
         left \<leftarrow> getitem arr (int z - 1) y x;
         right \<leftarrow> getitem arr (int z + 1) y x;
         if left \<noteq> no_data \<and> right \<noteq> no_data then Some (mean2 left right)
         else if left = no_data \<and> z = 1 then Some val
         else do {
           at_end \<leftarrow> (if right = no_data
                      then do { n2 \<leftarrow> len_trace arr; Some (int z = n2 - 2) }
                      else Some False);
           if at_end then Some val
           else if left = no_data \<and> right \<noteq> no_data then do {
             more_left \<leftarrow> getitem arr (int z - 2) y x;
             if more_left = no_data then Some val
             else Some (mean2 more_left right)
           }
           else if left \<noteq> no_data \<and> right = no_data then do {
             more_right \<leftarrow> getitem arr (int z + 2) y x;
             if more_right = no_data then Some val
             else Some (mean2 more_right left)
           }
           else if left = no_data \<and> right = no_data then do {
             more_left \<leftarrow> getitem arr (int z - 2) y x;
             more_right \<leftarrow> getitem arr (int z + 2) y x;
             if more_left \<noteq> no_data \<and> more_right \<noteq> no_data
             then Some (mean2 more_left more_right)
             else Some val
           }
           else Some val
         }
       }
       else Some val
     }
   }"

text \<open>A \<open>for i in range(n)\<close> loop over a state; a failure in the body ends the run.\<close>

fun for_range :: "nat list \<Rightarrow> (nat \<Rightarrow> 's \<Rightarrow> 's option) \<Rightarrow> 's \<Rightarrow> 's option" where
  "for_range [] body s = Some s"
| "for_range (i # is) body s = (case body i s of None \<Rightarrow> None | Some s' \<Rightarrow> for_range is body s')"

definition store_sample :: "ndarray \<Rightarrow> int \<Rightarrow> nat \<Rightarrow> nat \<Rightarrow> nat \<Rightarrow> ndarray \<Rightarrow> ndarray option" where
  "store_sample arr no_data x y z result = do {
     nv \<leftarrow> new_value arr no_data z y x;
     setitem result z y x nv
   }"

definition interpolate_numba :: "ndarray \<Rightarrow> int \<Rightarrow> ndarray option" where
  "interpolate_numba arr no_data =
     (case shape arr of (T, R, C) \<Rightarrow>
        for_range [0..<C] (\<lambda>x. for_range [0..<R] (\<lambda>y. for_range [0..<T] (\<lambda>z.
          store_sample arr no_data x y z)))
        (zeros_like arr Int16))"

subsection \<open>Traces and example volumes\<close>

text \<open>The volume of shape \<open>(T, 1, 1)\<close> holding one trace, and the trace at a row and column.\<close>

definition single_trace :: "dtype \<Rightarrow> int list \<Rightarrow> ndarray" where
  "single_trace dt tr = \<lparr>shape = (length tr, 1, 1), dtype = dt, cells = (\<lambda>(z, y, x). tr ! z)\<rparr>"

definition trace_at :: "ndarray \<Rightarrow> nat \<Rightarrow> nat \<Rightarrow> int list" where
  "trace_at arr y x = (case shape arr of (T, R, C) \<Rightarrow> map (\<lambda>z. cells arr (z, y, x)) [0..<T])"

text \<open>A volume of one row and two columns: trace \<open>tr0\<close> at column 0, \<open>tr1\<close> at column 1.\<close>

definition two_traces :: "dtype \<Rightarrow> int list \<Rightarrow> int list \<Rightarrow> ndarray" where
  "two_traces dt tr0 tr1 =
     \<lparr>shape = (length tr0, 1, 2), dtype = dt,
      cells = (\<lambda>(z, y, x). if x = 0 then tr0 ! z else tr1 ! z)\<rparr>"

text \<open>
  What a caller sees of a run: the sample at an index of the returned volume, its trace at a
  row and column, and its element type; \<open>None\<close> if the run fails.
\<close>

definition filled_sample :: "ndarray \<Rightarrow> int \<Rightarrow> nat \<Rightarrow> nat \<Rightarrow> nat \<Rightarrow> int option" where
  "filled_sample arr no_data z y x =
     map_option (\<lambda>res. cells res (z, y, x)) (interpolate_numba arr no_data)"

definition filled_trace :: "ndarray \<Rightarrow> int \<Rightarrow> nat \<Rightarrow> nat \<Rightarrow> int list option" where
  "filled_trace arr no_data y x =
     map_option (\<lambda>res. trace_at res y x) (interpolate_numba arr no_data)"

definition filled_dtype :: "ndarray \<Rightarrow> int \<Rightarrow> dtype option" where
  "filled_dtype arr no_data = map_option dtype (interpolate_numba arr no_data)"

subsection \<open>What the loops store\<close>

text \<open>
  The value the triple loop leaves at an index inside the array: the \<open>new_value\<close> of that
  index, cast to the 16 bits of the result. (It is used for indices at which \<open>new_value\<close>
  is defined, which \<open>new_value_defined\<close> below shows to be all indices inside the array.)
\<close>

definition stored :: "ndarray \<Rightarrow> int \<Rightarrow> nat \<times> nat \<times> nat \<Rightarrow> int" where
  "stored arr no_data k =
     (case k of (z, y, x) \<Rightarrow> cast_int 16 (the (new_value arr no_data z y x)))"

section \<open>Casts\<close>

lemma cast_int_16: "cast_int 16 v = (v + 32768) mod 65536 - 32768"
  by (simp add: cast_int_def)

lemma cast_int_64:
  "cast_int 64 v = (v + 9223372036854775808) mod 18446744073709551616 - 9223372036854775808"
  by (simp add: cast_int_def)

lemma cast16_small: "representable Int16 v \<Longrightarrow> cast_int 16 v = v"
  by (simp add: representable_def cast_int_16)

lemma cast_int_shift: "cast_int 16 (t + 65536 * m) = cast_int 16 t"
proof -
  have "(t + 32768 + 65536 * m) mod 65536 = (t + 32768) mod (65536 :: int)"
    by (rule mod_mult_self2)
  moreover have "t + 65536 * m + 32768 = t + 32768 + 65536 * m"
    by (simp only: add.assoc add.commute)
  ultimately show ?thesis unfolding cast_int_16 by (simp only:)
qed

lemma cast64_as_shift: "\<exists>k. cast_int 64 s = s + 2 * (65536 * k)"
proof -
  define q where "q = (s + 9223372036854775808) div 18446744073709551616"
  have "(s + 9223372036854775808) mod 18446744073709551616
        = s + 9223372036854775808 - 18446744073709551616 * q"
    unfolding q_def by (rule minus_mult_div_eq_mod [symmetric])
  then have "cast_int 64 s = s + 2 * (65536 * (- 140737488355328 * q))"
    unfolding cast_int_64 by simp
  then show ?thesis by blast
qed

text \<open>
  The wrap-around of the 64-bit sum cannot be seen in the result: it changes the halved sum
  by a multiple of \<open>2^63\<close>, which the cast to 16 bits removes.
\<close>

lemma cast16_mean2: "cast_int 16 (mean2 a b) = cast_int 16 ((a + b) div 2)"
proof -
  obtain k where k: "cast_int 64 (a + b) = (a + b) + 2 * (65536 * k)"
    using cast64_as_shift by blast
  have "((a + b) + 2 * (65536 * k)) div 2 = (a + b) div 2 + 65536 * k"
    by (subst div_mult_self2) simp_all
  then show ?thesis unfolding mean2_def k by (simp only: cast_int_shift)
qed

lemma mean2_small:
  assumes "representable Int16 a" "representable Int16 b"
  shows "cast_int 16 (mean2 a b) = (a + b) div 2"
proof -
  have "representable Int16 ((a + b) div 2)"
    using assms by (simp add: representable_def) linarith
  then show ?thesis by (simp add: cast16_mean2 cast16_small)
qed

section \<open>Reads inside the array\<close>

lemma getitem_in:
  "shape arr = (T, R, C) \<Longrightarrow> 0 \<le> k \<Longrightarrow> k < int T \<Longrightarrow> y < R \<Longrightarrow> x < C \<Longrightarrow>
   getitem arr k y x = Some (cells arr (nat k, y, x))"
  by (simp add: getitem_def)

lemma getitem_Some_iff:
  "shape arr = (T, R, C) \<Longrightarrow>
   getitem arr k y x \<noteq> None \<longleftrightarrow> 0 \<le> k \<and> k < int T \<and> y < R \<and> x < C"
  by (simp add: getitem_def)

lemma len_trace_in:
  "shape arr = (T, R, C) \<Longrightarrow> y < R \<Longrightarrow> x < C \<Longrightarrow> len_trace arr = Some (int T)"
  by (auto simp: len_trace_def)

lemma getitem_here:
  "shape arr = (T, R, C) \<Longrightarrow> y < R \<Longrightarrow> x < C \<Longrightarrow> z < T \<Longrightarrow>
   getitem arr (int z) y x = Some (cells arr (z, y, x))"
  by (simp add: getitem_in)

lemma getitem_left:
  "shape arr = (T, R, C) \<Longrightarrow> y < R \<Longrightarrow> x < C \<Longrightarrow> 0 < z \<Longrightarrow> z \<le> T \<Longrightarrow>
   getitem arr (int z - 1) y x = Some (cells arr (z - 1, y, x))"
  by (simp add: getitem_in nat_diff_distrib')

lemma getitem_right:
  "shape arr = (T, R, C) \<Longrightarrow> y < R \<Longrightarrow> x < C \<Longrightarrow> z + 1 < T \<Longrightarrow>
   getitem arr (int z + 1) y x = Some (cells arr (z + 1, y, x))"
  by (simp add: getitem_in nat_add_distrib)

lemma getitem_more_left:
  "shape arr = (T, R, C) \<Longrightarrow> y < R \<Longrightarrow> x < C \<Longrightarrow> 2 \<le> z \<Longrightarrow> z \<le> T \<Longrightarrow>
   getitem arr (int z - 2) y x = Some (cells arr (z - 2, y, x))"
  by (simp add: getitem_in nat_diff_distrib')

lemma getitem_more_right:
  "shape arr = (T, R, C) \<Longrightarrow> y < R \<Longrightarrow> x < C \<Longrightarrow> z + 2 < T \<Longrightarrow>
   getitem arr (int z + 2) y x = Some (cells arr (z + 2, y, x))"
  by (simp add: getitem_in nat_add_distrib)

lemmas reads_in = getitem_here getitem_left getitem_right getitem_more_left getitem_more_right
  len_trace_in

lemma at_end_iff:
  "(int z = int T - 1) = (z + 1 = T)" "(int z = int T - 2) = (z + 2 = T)"
  by auto

section \<open>The value computed for one sample\<close>

lemma new_value_first:
  assumes "shape arr = (T, R, C)" "y < R" "x < C" "0 < T"
  shows "new_value arr no_data 0 y x = Some (cells arr (0, y, x))"
  using assms by (simp add: new_value_def getitem_def)

lemma new_value_last:
  assumes "shape arr = (Suc z, R, C)" "y < R" "x < C"
  shows "new_value arr no_data z y x = Some (cells arr (z, y, x))"
  using assms by (simp add: new_value_def getitem_def len_trace_def)

text \<open>The four places of an interior sample: second, last but one, both, neither.\<close>

lemma new_value_defined_mid:
  assumes "shape arr = (T, R, C)" "y < R" "x < C" "2 \<le> z" "z + 2 < T"
  shows "\<exists>v. new_value arr no_data z y x = Some v"
  using assms(4,5) by (simp add: new_value_def reads_in [OF assms(1,2,3)] at_end_iff)

lemma new_value_defined_second:
  assumes "shape arr = (T, R, C)" "y < R" "x < C" "2 < T"
  shows "\<exists>v. new_value arr no_data 1 y x = Some v"
  using assms by (simp add: new_value_def getitem_def len_trace_def)

lemma new_value_defined_penultimate:
  assumes "shape arr = (Suc (Suc z), R, C)" "y < R" "x < C" "0 < z"
  shows "\<exists>v. new_value arr no_data z y x = Some v"
  using assms by (simp add: new_value_def getitem_def len_trace_def)

lemma new_value_defined:
  assumes "shape arr = (T, R, C)" "z < T" "y < R" "x < C"
  shows "\<exists>v. new_value arr no_data z y x = Some v"
proof -
  consider "z = 0" | "T = Suc z" | "z = 1" "2 < T" | "0 < z" "T = Suc (Suc z)"
    | "2 \<le> z" "z + 2 < T"
    using assms(2) by linarith
  then show ?thesis
  proof cases
    case 1
    then show ?thesis using new_value_first [OF assms(1,3,4)] assms(2) by simp
  next
    case 2
    then show ?thesis using new_value_last [OF _ assms(3,4)] assms(1) by simp
  next
    case 3
    then show ?thesis using new_value_defined_second [OF assms(1,3,4)] by simp
  next
    case 4
    then show ?thesis using new_value_defined_penultimate [OF _ assms(3,4)] assms(1) by simp
  next
    case 5
    then show ?thesis using new_value_defined_mid [OF assms(1,3,4)] by simp
  qed
qed

lemma new_value_interior_valid:
  assumes "shape arr = (T, R, C)" "y < R" "x < C" "0 < z" "z + 1 < T"
    and "cells arr (z, y, x) \<noteq> no_data"
  shows "new_value arr no_data z y x = Some (cells arr (z, y, x))"
  using assms by (simp add: new_value_def getitem_def len_trace_def)

lemma new_value_valid:
  assumes "shape arr = (T, R, C)" "z < T" "y < R" "x < C"
    and "cells arr (z, y, x) \<noteq> no_data"
  shows "new_value arr no_data z y x = Some (cells arr (z, y, x))"
proof -
  consider "z = 0" | "T = Suc z" | "0 < z" "z + 1 < T"
    using assms(2) by linarith
  then show ?thesis
  proof cases
    case 1
    then show ?thesis using new_value_first [OF assms(1,3,4)] assms(2) by simp
  next
    case 2
    then show ?thesis using new_value_last [OF _ assms(3,4)] assms(1) by simp
  next
    case 3
    then show ?thesis by (rule new_value_interior_valid [OF assms(1,3,4) _ _ assms(5)])
  qed
qed

lemma new_value_both:
  assumes "shape arr = (T, R, C)" "y < R" "x < C" "0 < z" "z + 1 < T"
    and "cells arr (z, y, x) = no_data"
    and "cells arr (z - 1, y, x) \<noteq> no_data" "cells arr (z + 1, y, x) \<noteq> no_data"
  shows "new_value arr no_data z y x
         = Some (mean2 (cells arr (z - 1, y, x)) (cells arr (z + 1, y, x)))"
  using assms
  by (simp add: new_value_def getitem_def len_trace_def nat_diff_distrib' nat_add_distrib)

lemma new_value_second_left:
  assumes "shape arr = (T, R, C)" "y < R" "x < C" "2 < T"
    and "cells arr (1, y, x) = no_data" "cells arr (0, y, x) = no_data"
  shows "new_value arr no_data 1 y x = Some no_data"
  using assms by (simp add: new_value_def getitem_def len_trace_def)

lemma new_value_penultimate_right:
  assumes "shape arr = (Suc (Suc z), R, C)" "y < R" "x < C" "0 < z"
    and "cells arr (z, y, x) = no_data" "cells arr (Suc z, y, x) = no_data"
  shows "new_value arr no_data z y x = Some no_data"
  using assms by (simp add: new_value_def getitem_def len_trace_def nat_add_distrib)

lemma new_value_run_first:
  assumes "shape arr = (T, R, C)" "y < R" "x < C" "0 < z" "z + 3 < T"
    and "cells arr (z - 1, y, x) \<noteq> no_data"
    and "cells arr (z, y, x) = no_data" "cells arr (z + 1, y, x) = no_data"
      "cells arr (z + 2, y, x) = no_data"
  shows "new_value arr no_data z y x = Some no_data"
  using assms
  by (simp add: new_value_def getitem_def len_trace_def nat_diff_distrib' nat_add_distrib)

lemma new_value_run_middle:
  assumes "shape arr = (T, R, C)" "y < R" "x < C" "0 < z" "z + 3 < T"
    and "cells arr (z - 1, y, x) \<noteq> no_data" "cells arr (z + 3, y, x) \<noteq> no_data"
    and "cells arr (z, y, x) = no_data" "cells arr (z + 1, y, x) = no_data"
      "cells arr (z + 2, y, x) = no_data"
  shows "new_value arr no_data (z + 1) y x
         = Some (mean2 (cells arr (z - 1, y, x)) (cells arr (z + 3, y, x)))"
  using assms
  by (simp add: new_value_def getitem_def len_trace_def nat_diff_distrib' nat_add_distrib
        add.commute [of 3 z])

lemma new_value_run_last:
  assumes "shape arr = (T, R, C)" "y < R" "x < C" "0 < z" "z + 3 < T"
    and "cells arr (z + 3, y, x) \<noteq> no_data"
    and "cells arr (z, y, x) = no_data" "cells arr (z + 1, y, x) = no_data"
      "cells arr (z + 2, y, x) = no_data"
  shows "new_value arr no_data (z + 2) y x = Some no_data"
  using assms
  by (simp add: new_value_def getitem_def len_trace_def nat_diff_distrib' nat_add_distrib)

text \<open>Two volumes that agree on a window of one trace read the same values there.\<close>

lemma getitem_agree:
  assumes "shape arr1 = (T, R1, C1)" "shape arr2 = (T, R2, C2)"
    and "r < R1" "r < R2" "c < C1" "c < C2"
    and "\<forall>j<T. z \<le> j + 2 \<and> j \<le> z + 2 \<longrightarrow> cells arr1 (j, r, c) = cells arr2 (j, r, c)"
    and "int z - 2 \<le> k" "k \<le> int z + 2"
  shows "getitem arr1 k r c = getitem arr2 k r c"
proof (cases "0 \<le> k \<and> k < int T")
  case True
  then have "nat k < T" "z \<le> nat k + 2" "nat k \<le> z + 2" using assms(8,9) by linarith+
  then have "cells arr1 (nat k, r, c) = cells arr2 (nat k, r, c)" using assms(7) by blast
  then show ?thesis using True assms(1-6) by (simp add: getitem_def)
next
  case False
  then show ?thesis using assms(1-6) by (auto simp: getitem_def)
qed

lemma new_value_agree:
  assumes "shape arr1 = (T, R1, C1)" "shape arr2 = (T, R2, C2)"
    and "r < R1" "r < R2" "c < C1" "c < C2"
    and "\<forall>j<T. z \<le> j + 2 \<and> j \<le> z + 2 \<longrightarrow> cells arr1 (j, r, c) = cells arr2 (j, r, c)"
  shows "new_value arr1 no_data z r c = new_value arr2 no_data z r c"
proof -
  note g = getitem_agree [OF assms]
  have g0: "getitem arr1 (int z) r c = getitem arr2 (int z) r c" by (rule g) simp_all
  have gl: "getitem arr1 (int z - 1) r c = getitem arr2 (int z - 1) r c" by (rule g) simp_all
  have gr: "getitem arr1 (int z + 1) r c = getitem arr2 (int z + 1) r c" by (rule g) simp_all
  have gll: "getitem arr1 (int z - 2) r c = getitem arr2 (int z - 2) r c" by (rule g) simp_all
  have grr: "getitem arr1 (int z + 2) r c = getitem arr2 (int z + 2) r c" by (rule g) simp_all
  have len: "len_trace arr1 = len_trace arr2"
    using assms(1-6) by (simp add: len_trace_in)
  show ?thesis unfolding new_value_def g0 gl gr gll grr len by (rule refl)
qed

section \<open>The three loops\<close>

text \<open>
  A loop whose body overwrites the cells selected by \<open>P i\<close> with \<open>W\<close>, and keeps the
  invariant \<open>Inv\<close>, overwrites the cells selected by any \<open>i\<close> of its range.
\<close>

lemma for_range_cells:
  assumes "Inv s"
    and "\<And>i s. i \<in> set is \<Longrightarrow> Inv s \<Longrightarrow>
           \<exists>s'. body i s = Some s' \<and> Inv s' \<and>
             (\<forall>k. cells s' k = (if P i k then W k else cells s k))"
  shows "\<exists>s'. for_range is body s = Some s' \<and> Inv s' \<and>
           (\<forall>k. cells s' k = (if \<exists>i\<in>set is. P i k then W k else cells s k))"
  using assms
proof (induction "is" arbitrary: s)
  case Nil
  then show ?case by simp
next
  case (Cons i "is")
  from Cons.prems obtain s1 where s1: "body i s = Some s1" "Inv s1"
    "\<forall>k. cells s1 k = (if P i k then W k else cells s k)"
    by (meson list.set_intros(1))
  have "\<exists>s'. for_range is body s1 = Some s' \<and> Inv s' \<and>
           (\<forall>k. cells s' k = (if \<exists>i\<in>set is. P i k then W k else cells s1 k))"
    by (rule Cons.IH [OF s1(2)]) (rule Cons.prems(2), simp_all)
  then obtain s2 where s2: "for_range is body s1 = Some s2" "Inv s2"
    "\<forall>k. cells s2 k = (if \<exists>i\<in>set is. P i k then W k else cells s1 k)"
    by blast
  have "for_range (i # is) body s = Some s2" using s1(1) s2(1) by simp
  moreover have "\<forall>k. cells s2 k = (if \<exists>j\<in>set (i # is). P j k then W k else cells s k)"
    using s1(3) s2(3) by auto
  ultimately show ?case using s2(2) by blast
qed

lemma store_sample_cells:
  assumes "shape arr = (T, R, C)" "z < T" "y < R" "x < C"
    and "shape s = shape arr \<and> dtype s = Int16"
  shows "\<exists>s'. store_sample arr no_data x y z s = Some s' \<and>
           (shape s' = shape arr \<and> dtype s' = Int16) \<and>
           (\<forall>k. cells s' k = (if k = (z, y, x) then stored arr no_data k else cells s k))"
proof -
  obtain v where v: "new_value arr no_data z y x = Some v"
    using new_value_defined [OF assms(1-4)] by blast
  show ?thesis using assms v
    by (simp add: store_sample_def setitem_def stored_def)
qed

lemma interpolate_numba_cells:
  assumes "shape arr = (T, R, C)"
  shows "\<exists>res. interpolate_numba arr no_data = Some res \<and> shape res = shape arr \<and>
           dtype res = Int16 \<and>
           (\<forall>z y x. cells res (z, y, x) =
              (if z < T \<and> y < R \<and> x < C then stored arr no_data (z, y, x) else 0))"
proof -
  let ?Inv = "\<lambda>s. shape s = shape arr \<and> dtype s = Int16"
  let ?W = "stored arr no_data"
  let ?zs = "\<lambda>x y. for_range [0..<T] (\<lambda>z. store_sample arr no_data x y z)"
  let ?ys = "\<lambda>x. for_range [0..<R] (\<lambda>y. ?zs x y)"
  have inner: "\<exists>s'. ?zs x y s = Some s' \<and> ?Inv s' \<and>
      (\<forall>k. cells s' k = (if \<exists>z\<in>set [0..<T]. k = (z, y, x) then ?W k else cells s k))"
    if "?Inv s" "y < R" "x < C" for s y x
    by (rule for_range_cells [where Inv = ?Inv, OF that(1)])
       (rule store_sample_cells [OF assms _ that(2,3)], simp_all)
  have middle: "\<exists>s'. ?ys x s = Some s' \<and> ?Inv s' \<and>
      (\<forall>k. cells s' k =
         (if \<exists>y\<in>set [0..<R]. \<exists>z\<in>set [0..<T]. k = (z, y, x) then ?W k else cells s k))"
    if "?Inv s" "x < C" for s x
    by (rule for_range_cells [where Inv = ?Inv, OF that(1)]) (rule inner, simp_all add: that(2))
  have outer: "\<exists>s'. for_range [0..<C] ?ys s = Some s' \<and> ?Inv s' \<and>
      (\<forall>k. cells s' k =
         (if \<exists>x\<in>set [0..<C]. \<exists>y\<in>set [0..<R]. \<exists>z\<in>set [0..<T]. k = (z, y, x)
          then ?W k else cells s k))"
    if "?Inv s" for s
    by (rule for_range_cells [where Inv = ?Inv, OF that(1)]) (rule middle, simp_all)
  have "?Inv (zeros_like arr Int16)" by (simp add: zeros_like_def)
  from outer [OF this] obtain res where res:
    "for_range [0..<C] ?ys (zeros_like arr Int16) = Some res"
    "?Inv res"
    "\<forall>k. cells res k =
       (if \<exists>x\<in>set [0..<C]. \<exists>y\<in>set [0..<R]. \<exists>z\<in>set [0..<T]. k = (z, y, x)
        then ?W k else cells (zeros_like arr Int16) k)"
    by blast
  have "interpolate_numba arr no_data = Some res"
    using res(1) assms by (simp add: interpolate_numba_def)
  moreover have "\<forall>z y x. cells res (z, y, x) =
              (if z < T \<and> y < R \<and> x < C then stored arr no_data (z, y, x) else 0)"
    using res(3) by (auto simp: zeros_like_def)
  ultimately show ?thesis using res(2) by blast
qed

text \<open>
  The run returns a result, and each sample of it is the 16-bit cast of the \<open>new_value\<close>
  computed from the input.
\<close>

lemma interpolate_numba_samples:
  assumes "shape arr = (T, R, C)"
  shows "\<exists>res. interpolate_numba arr no_data = Some res \<and> shape res = shape arr \<and>
           dtype res = Int16 \<and>
           (\<forall>z y x v. z < T \<longrightarrow> y < R \<longrightarrow> x < C \<longrightarrow> new_value arr no_data z y x = Some v
              \<longrightarrow> cells res (z, y, x) = cast_int 16 v)"
proof -
  from interpolate_numba_cells [OF assms, of no_data] obtain res where res:
    "interpolate_numba arr no_data = Some res" "shape res = shape arr" "dtype res = Int16"
    "\<forall>z y x. cells res (z, y, x) =
       (if z < T \<and> y < R \<and> x < C then stored arr no_data (z, y, x) else 0)"
    by blast
  have "cells res (z, y, x) = cast_int 16 v"
    if "z < T" "y < R" "x < C" "new_value arr no_data z y x = Some v" for z y x v
    using res(4) that by (simp add: stored_def)
  with res(1-3) show ?thesis by blast
qed

section \<open>The example volumes are well formed\<close>

text \<open>Every sample of the volumes used below is representable in the volume's element type.\<close>

lemma example_volumes_valid:
  "valid_ndarray (single_trace Int64 [40000, -32768, 40000])"
  "valid_ndarray (single_trace Int64 [40000, 1, 2])"
  "valid_ndarray (single_trace Int64 [1, 40000, 2])"
  "valid_ndarray (single_trace Int64 [40000, -32768, -32768, -32768, 40000])"
  "valid_ndarray (single_trace Int64 [1, 2, 3])"
  "valid_ndarray (single_trace Int64 [40000, 40000, 5])"
  "valid_ndarray (single_trace Int16 [7, -32768])"
  by (simp_all add: valid_ndarray_def single_trace_def representable_def less_Suc_eq
        numeral_2_eq_2 numeral_3_eq_3 eval_nat_numeral)

section \<open>The worked example\<close>

text \<open>
  Claim C1. For the input trace \<open>[5, -32768, 7, -32768, -32768, 9, -32768]\<close> (\<open>T = 7\<close>) and
  the sentinel \<open>-32768\<close>, the fill returns exactly the trace \<open>[5, 6, 7, 8, 8, 9, -32768]\<close>:
  position 0 is copied, position 1 is \<open>(5+7)/2\<close>, position 2 is valid, positions 3 and 4
  are \<open>(7+9)/2\<close> through the neighbour two steps away, position 5 is valid and position 6,
  the last one, keeps the sentinel. The element type recorded for the input plays no part.
\<close>

theorem fill_example_trace:
  "filled_trace (single_trace dt [5, -32768, 7, -32768, -32768, 9, -32768]) (-32768) 0 0
   = Some [5, 6, 7, 8, 8, 9, -32768]"
  by code_simp

section \<open>Short volumes\<close>

text \<open>
  Claim C2 says that a volume with fewer than three time steps is rejected with an error
  before any processing. The source has no such check. For the two-sample trace
  \<open>[7, -32768]\<close> the loop takes the branch \<open>z == 0\<close> for the first sample and the branch
  \<open>z == len(arr[:,0,0])-1\<close> for the second, and the call returns the copied trace.
\<close>

theorem short_volume_returned_counterexample:
  "interpolate_numba (single_trace Int16 [7, -32768]) (-32768) \<noteq> None \<and>
   filled_trace (single_trace Int16 [7, -32768]) (-32768) 0 0 = Some [7, -32768]"
  by code_simp

text \<open>
  Claim C2, amended. For every input volume whose time extent is smaller than 3, the fill
  raises no error: it returns a volume of the same shape in which every sample is the input
  sample, cast to 16 bits. (Every position of such a trace is the first or the last one.)
\<close>

theorem short_volume_copied:
  assumes "shape arr = (T, R, C)" "T < 3"
  shows "\<exists>res. interpolate_numba arr no_data = Some res \<and> shape res = shape arr \<and>
           (\<forall>z<T. \<forall>y<R. \<forall>x<C. cells res (z, y, x) = cast_int 16 (cells arr (z, y, x)))"
proof -
  obtain res where res: "interpolate_numba arr no_data = Some res" "shape res = shape arr"
    and samples: "\<forall>z y x v. z < T \<longrightarrow> y < R \<longrightarrow> x < C \<longrightarrow> new_value arr no_data z y x = Some v
       \<longrightarrow> cells res (z, y, x) = cast_int 16 v"
    using interpolate_numba_samples [OF assms(1)] by blast
  have "cells res (z, y, x) = cast_int 16 (cells arr (z, y, x))"
    if "z < T" "y < R" "x < C" for z y x
  proof -
    from that(1) assms(2) consider "z = 0" | "T = Suc z" by linarith
    then have "new_value arr no_data z y x = Some (cells arr (z, y, x))"
    proof cases
      case 1
      then show ?thesis using new_value_first [OF assms(1) that(2,3)] that(1) by simp
    next
      case 2
      then show ?thesis using new_value_last [OF _ that(2,3)] assms(1) by simp
    qed
    then show ?thesis using samples that by blast
  qed
  with res show ?thesis by blast
qed

theorem short_volume_copied_witness:
  "shape (single_trace Int16 [7, -32768]) = (2, 1, 1) \<and> (2::nat) < 3 \<and>
   (\<exists>res. interpolate_numba (single_trace Int16 [7, -32768]) (-32768) = Some res \<and>
      shape res = (2, 1, 1) \<and> cells res (0, 0, 0) = 7 \<and> cells res (1, 0, 0) = -32768)"
proof -
  have sh: "shape (single_trace Int16 [7, -32768]) = (2, 1, 1)"
    by (simp add: single_trace_def)
  from short_volume_copied [OF sh, of "-32768"] obtain res where
    r: "interpolate_numba (single_trace Int16 [7, -32768]) (-32768) = Some res"
      "shape res = shape (single_trace Int16 [7, -32768])"
      "\<forall>z<2. \<forall>y<1. \<forall>x<1. cells res (z, y, x)
         = cast_int 16 (cells (single_trace Int16 [7, -32768]) (z, y, x))"
    by auto
  have "cells res (0, 0, 0) = 7"
    using r(3) [rule_format, of 0 0 0] by (simp add: single_trace_def cast_int_16)
  moreover have "cells res (1, 0, 0) = -32768"
    using r(3) [rule_format, of 1 0 0] by (simp add: single_trace_def cast_int_16)
  ultimately show ?thesis using sh r(1,2) by simp
qed

section \<open>Shape and element type of the result\<close>

text \<open>
  Claim C3 says that the result has the integer width of the input. The result is allocated
  with \<open>np.zeros_like(arr, dtype=np.int16)\<close>: for a 64-bit input (the element type of the
  notebook's own test array, made by \<open>np.random.randint\<close>) the result is 16-bit.
\<close>

theorem result_dtype_counterexample:
  "dtype (single_trace Int64 [1, 2, 3]) = Int64 \<and>
   filled_dtype (single_trace Int64 [1, 2, 3]) (-32768) = Some Int16"
  by code_simp

text \<open>
  Claim C3, amended. For every input volume, the fill returns a volume of identical shape
  whose element type is the 16-bit signed integer, whatever the integer width of the input.
\<close>

theorem result_shape_int16:
  "\<exists>res. interpolate_numba arr no_data = Some res \<and> shape res = shape arr \<and> dtype res = Int16"
proof -
  obtain T R C where "shape arr = (T, R, C)" by (cases "shape arr") blast
  from interpolate_numba_samples [OF this] show ?thesis by blast
qed

section \<open>A single gap\<close>

text \<open>
  Claim C4 says that a sentinel between two valid neighbours \<open>a\<close> and \<open>b\<close> becomes
  \<open>floor((a+b)/2)\<close>, for every trace. The value is stored in a 16-bit array, so for
  neighbours outside the 16-bit range it is not: in a 64-bit volume with \<open>a = b = 40000\<close>
  the output is \<open>-25536\<close>.
\<close>

theorem single_gap_counterexample:
  "filled_sample (single_trace Int64 [40000, -32768, 40000]) (-32768) 1 0 0 = Some (-25536) \<and>
   (40000 + 40000) div 2 \<noteq> (-25536 :: int)"
  by code_simp

text \<open>
  Claim C4, amended. For every trace and every interior position \<open>z\<close> (\<open>0 < z < T-1\<close>)
  where the input is the sentinel and both immediate neighbours \<open>a\<close> and \<open>b\<close> are valid,
  the output at \<open>z\<close> is \<open>floor((a+b)/2)\<close> cast to 16 bits; whenever \<open>a\<close> and \<open>b\<close> are
  representable as 16-bit signed integers it is \<open>floor((a+b)/2)\<close> itself, also when
  \<open>a+b\<close> is negative and odd (the witness has \<open>a + b = -3\<close> and the output \<open>-2\<close>).
\<close>

theorem single_gap_mean:
  assumes "shape arr = (T, R, C)" "y < R" "x < C" "0 < z" "z + 1 < T"
    and "cells arr (z, y, x) = no_data"
    and "cells arr (z - 1, y, x) = a" "cells arr (z + 1, y, x) = b"
    and "a \<noteq> no_data" "b \<noteq> no_data"
  shows "\<exists>res. interpolate_numba arr no_data = Some res \<and>
           cells res (z, y, x) = cast_int 16 ((a + b) div 2) \<and>
           (representable Int16 a \<and> representable Int16 b \<longrightarrow>
              cells res (z, y, x) = (a + b) div 2)"
proof -
  obtain res where res: "interpolate_numba arr no_data = Some res"
    and samples: "\<forall>z y x v. z < T \<longrightarrow> y < R \<longrightarrow> x < C \<longrightarrow> new_value arr no_data z y x = Some v
       \<longrightarrow> cells res (z, y, x) = cast_int 16 v"
    using interpolate_numba_samples [OF assms(1)] by blast
  have "new_value arr no_data z y x = Some (mean2 a b)"
    using new_value_both [OF assms(1-6)] assms(7-10) by simp
  then have c: "cells res (z, y, x) = cast_int 16 (mean2 a b)"
    using samples assms(2,3,5) by simp
  have "cells res (z, y, x) = cast_int 16 ((a + b) div 2)"
    using c by (simp only: cast16_mean2)
  moreover have "cells res (z, y, x) = (a + b) div 2"
    if "representable Int16 a \<and> representable Int16 b"
    using c that by (simp only: mean2_small)
  ultimately show ?thesis using res by blast
qed

theorem single_gap_mean_witness:
  "\<exists>res. interpolate_numba (single_trace Int16 [-1, -32768, -2]) (-32768) = Some res \<and>
         cells res (1, 0, 0) = (-1 + -2) div 2 \<and> cells res (1, 0, 0) = -2"
proof -
  let ?arr = "single_trace Int16 [-1, -32768, -2]"
  have sh: "shape ?arr = (3, 1, 1)" by (simp add: single_trace_def)
  have c: "cells ?arr (1, 0, 0) = -32768" "cells ?arr (1 - 1, 0, 0) = -1"
    "cells ?arr (1 + 1, 0, 0) = -2"
    by (simp_all add: single_trace_def)
  have rep: "representable Int16 (-1) \<and> representable Int16 (-2)"
    by (simp add: representable_def)
  from single_gap_mean [OF sh _ _ _ _ c] obtain res where
    "interpolate_numba ?arr (-32768) = Some res"
    "representable Int16 (-1) \<and> representable Int16 (-2) \<longrightarrow> cells res (1, 0, 0) = (-1 + -2) div 2"
    by auto
  with rep show ?thesis by auto
qed

section \<open>First and last sample\<close>

text \<open>
  Claim C5 says that the first and the last sample of every trace are returned unchanged.
  They are copied, but into a 16-bit array: a first sample \<open>40000\<close> of a 64-bit volume
  comes back as \<open>-25536\<close>.
\<close>

theorem boundary_counterexample:
  "cells (single_trace Int64 [40000, 1, 2]) (0, 0, 0) = 40000 \<and>
   filled_sample (single_trace Int64 [40000, 1, 2]) (-32768) 0 0 0 = Some (-25536)"
  by code_simp

text \<open>
  Claim C5, amended. For every trace of every input volume, the first and the last output
  sample are the first and the last input sample cast to 16 bits, whether or not they equal
  the sentinel; so \<open>output[0] == input[0]\<close> and \<open>output[T-1] == input[T-1]\<close> whenever these
  input samples are representable as 16-bit signed integers (as the default sentinel
  \<open>-32768\<close> is).
\<close>

theorem boundary_copied:
  assumes "shape arr = (T, R, C)" "0 < T" "y < R" "x < C"
  shows "\<exists>res. interpolate_numba arr no_data = Some res \<and>
           cells res (0, y, x) = cast_int 16 (cells arr (0, y, x)) \<and>
           cells res (T - 1, y, x) = cast_int 16 (cells arr (T - 1, y, x)) \<and>
           (representable Int16 (cells arr (0, y, x)) \<longrightarrow>
              cells res (0, y, x) = cells arr (0, y, x)) \<and>
           (representable Int16 (cells arr (T - 1, y, x)) \<longrightarrow>
              cells res (T - 1, y, x) = cells arr (T - 1, y, x))"
proof -
  obtain res where res: "interpolate_numba arr no_data = Some res"
    and samples: "\<forall>z y x v. z < T \<longrightarrow> y < R \<longrightarrow> x < C \<longrightarrow> new_value arr no_data z y x = Some v
       \<longrightarrow> cells res (z, y, x) = cast_int 16 v"
    using interpolate_numba_samples [OF assms(1)] by blast
  have first: "cells res (0, y, x) = cast_int 16 (cells arr (0, y, x))"
    using samples assms(2,3,4) new_value_first [OF assms(1,3,4,2)] by blast
  have "shape arr = (Suc (T - 1), R, C)" using assms(1,2) by simp
  from new_value_last [OF this assms(3,4)]
  have "new_value arr no_data (T - 1) y x = Some (cells arr (T - 1, y, x))" .
  moreover have "T - 1 < T" using assms(2) by simp
  ultimately have last: "cells res (T - 1, y, x) = cast_int 16 (cells arr (T - 1, y, x))"
    using samples assms(3,4) by blast
  have "cells res (0, y, x) = cells arr (0, y, x)"
    if "representable Int16 (cells arr (0, y, x))"
    using first cast16_small [OF that] by simp
  moreover have "cells res (T - 1, y, x) = cells arr (T - 1, y, x)"
    if "representable Int16 (cells arr (T - 1, y, x))"
    using last cast16_small [OF that] by simp
  ultimately show ?thesis using res first last by blast
qed

theorem boundary_copied_witness:
  "\<exists>res. interpolate_numba (single_trace Int16 [-32768, 5, -32768]) (-32768) = Some res \<and>
         cells res (0, 0, 0) = -32768 \<and> cells res (2, 0, 0) = -32768"
proof -
  let ?arr = "single_trace Int16 [-32768, 5, -32768]"
  have sh: "shape ?arr = (3, 1, 1)" by (simp add: single_trace_def)
  have rep: "representable Int16 (cells ?arr (0, 0, 0))" "representable Int16 (cells ?arr (3 - 1, 0, 0))"
    by (simp_all add: single_trace_def representable_def)
  from boundary_copied [OF sh, of 0 0 "-32768"] obtain res where
    r: "interpolate_numba ?arr (-32768) = Some res"
    "representable Int16 (cells ?arr (0, 0, 0)) \<longrightarrow> cells res (0, 0, 0) = cells ?arr (0, 0, 0)"
    "representable Int16 (cells ?arr (3 - 1, 0, 0)) \<longrightarrow> cells res (3 - 1, 0, 0) = cells ?arr (3 - 1, 0, 0)"
    by auto
  have "cells res (0, 0, 0) = -32768" using r(2) rep(1) by (simp add: single_trace_def)
  moreover have "cells res (2, 0, 0) = -32768" using r(3) rep(2) by (simp add: single_trace_def)
  ultimately show ?thesis using r(1) by blast
qed

section \<open>Valid samples\<close>

text \<open>
  Claim C6 says that every sample that is not the sentinel is returned unchanged, for every
  trace. It is copied, but into a 16-bit array: the valid sample \<open>40000\<close> of a 64-bit
  volume comes back as \<open>-25536\<close>.
\<close>

theorem valid_sample_counterexample:
  "cells (single_trace Int64 [1, 40000, 2]) (1, 0, 0) = 40000 \<and> 40000 \<noteq> (-32768 :: int) \<and>
   filled_sample (single_trace Int64 [1, 40000, 2]) (-32768) 1 0 0 = Some (-25536)"
  by code_simp

text \<open>
  Claim C6, amended. For every trace and every position \<open>z\<close> where the input value is not
  the sentinel, the output at \<open>z\<close> is the input at \<open>z\<close> cast to 16 bits, and equals the
  input at \<open>z\<close> whenever that is representable as a 16-bit signed integer; consequently a
  trace that contains no sentinel and only such values is returned entirely unchanged.
\<close>

theorem valid_samples_kept:
  assumes "shape arr = (T, R, C)" "y < R" "x < C"
  shows "\<exists>res. interpolate_numba arr no_data = Some res \<and>
           (\<forall>z<T. cells arr (z, y, x) \<noteq> no_data \<longrightarrow>
              cells res (z, y, x) = cast_int 16 (cells arr (z, y, x)) \<and>
              (representable Int16 (cells arr (z, y, x)) \<longrightarrow>
                 cells res (z, y, x) = cells arr (z, y, x))) \<and>
           ((\<forall>z<T. cells arr (z, y, x) \<noteq> no_data \<and> representable Int16 (cells arr (z, y, x)))
              \<longrightarrow> trace_at res y x = trace_at arr y x)"
proof -
  obtain res where res: "interpolate_numba arr no_data = Some res" "shape res = shape arr"
    and samples: "\<forall>z y x v. z < T \<longrightarrow> y < R \<longrightarrow> x < C \<longrightarrow> new_value arr no_data z y x = Some v
       \<longrightarrow> cells res (z, y, x) = cast_int 16 v"
    using interpolate_numba_samples [OF assms(1)] by blast
  have kept: "cells res (z, y, x) = cast_int 16 (cells arr (z, y, x))"
    if "z < T" "cells arr (z, y, x) \<noteq> no_data" for z
    using samples that(1) assms(2,3) new_value_valid [OF assms(1) that(1) assms(2,3) that(2)]
    by blast
  have same: "cells res (z, y, x) = cells arr (z, y, x)"
    if "z < T" "cells arr (z, y, x) \<noteq> no_data" "representable Int16 (cells arr (z, y, x))" for z
    using kept [OF that(1,2)] cast16_small [OF that(3)] by simp
  have "trace_at res y x = trace_at arr y x"
    if "\<forall>z<T. cells arr (z, y, x) \<noteq> no_data \<and> representable Int16 (cells arr (z, y, x))"
    using that same res(2) assms(1) by (simp add: trace_at_def)
  then show ?thesis using res(1) kept same by blast
qed

theorem valid_samples_kept_witness:
  "\<exists>res. interpolate_numba (single_trace Int16 [3, -1, 4]) (-32768) = Some res \<and>
         trace_at res 0 0 = [3, -1, 4]"
proof -
  let ?arr = "single_trace Int16 [3, -1, 4]"
  have sh: "shape ?arr = (3, 1, 1)" by (simp add: single_trace_def)
  have ok: "\<forall>z<3. cells ?arr (z, 0, 0) \<noteq> -32768 \<and> representable Int16 (cells ?arr (z, 0, 0))"
    by (simp add: single_trace_def representable_def less_Suc_eq numeral_3_eq_3)
  from valid_samples_kept [OF sh, of 0 0 "-32768"] obtain res where
    r: "interpolate_numba ?arr (-32768) = Some res"
    "(\<forall>z<3. cells ?arr (z, 0, 0) \<noteq> -32768 \<and> representable Int16 (cells ?arr (z, 0, 0)))
       \<longrightarrow> trace_at res 0 0 = trace_at ?arr 0 0"
    by auto
  have "trace_at ?arr 0 0 = [3, -1, 4]" by code_simp
  with r ok show ?thesis by auto
qed

section \<open>Independence of traces\<close>

text \<open>
  Claim C7. The output sample at \<open>(z, r, c)\<close> is a function only of the input samples of
  the same trace \<open>(r, c)\<close> at the positions \<open>z-2 .. z+2\<close> that exist: \<open>new_value\<close> reads
  the input array only, never the result. Two input volumes of the same time extent that
  agree on that window of the trace give the same output at \<open>(z, r, c)\<close>, whatever their
  other samples, their other traces, their numbers of rows and columns and their element
  types are.
\<close>

theorem window_determines_sample:
  assumes "shape arr1 = (T, R1, C1)" "shape arr2 = (T, R2, C2)"
    and "r < R1" "r < R2" "c < C1" "c < C2" "z < T"
    and "\<forall>j<T. z \<le> j + 2 \<and> j \<le> z + 2 \<longrightarrow> cells arr1 (j, r, c) = cells arr2 (j, r, c)"
  shows "\<exists>res1 res2. interpolate_numba arr1 no_data = Some res1 \<and>
           interpolate_numba arr2 no_data = Some res2 \<and>
           cells res1 (z, r, c) = cells res2 (z, r, c)"
proof -
  obtain res1 where res1: "interpolate_numba arr1 no_data = Some res1"
    and s1: "\<forall>z y x v. z < T \<longrightarrow> y < R1 \<longrightarrow> x < C1 \<longrightarrow> new_value arr1 no_data z y x = Some v
       \<longrightarrow> cells res1 (z, y, x) = cast_int 16 v"
    using interpolate_numba_samples [OF assms(1)] by blast
  obtain res2 where res2: "interpolate_numba arr2 no_data = Some res2"
    and s2: "\<forall>z y x v. z < T \<longrightarrow> y < R2 \<longrightarrow> x < C2 \<longrightarrow> new_value arr2 no_data z y x = Some v
       \<longrightarrow> cells res2 (z, y, x) = cast_int 16 v"
    using interpolate_numba_samples [OF assms(2)] by blast
  obtain v where v: "new_value arr1 no_data z r c = Some v"
    using new_value_defined [OF assms(1,7,3,5)] by blast
  then have v2: "new_value arr2 no_data z r c = Some v"
    using new_value_agree [OF assms(1-6,8)] by simp
  have "cells res1 (z, r, c) = cast_int 16 v" using s1 v assms(3,5,7) by blast
  moreover have "cells res2 (z, r, c) = cast_int 16 v" using s2 v2 assms(4,6,7) by blast
  ultimately show ?thesis using res1 res2 by simp
qed

theorem window_determines_sample_witness:
  "\<exists>res1 res2.
     interpolate_numba (two_traces Int64 [1, -32768, 3] [4, 5, 6]) (-32768) = Some res1 \<and>
     interpolate_numba (two_traces Int16 [1, -32768, 3] [-32768, -32768, -32768]) (-32768)
       = Some res2 \<and>
     cells res1 (1, 0, 0) = cells res2 (1, 0, 0)"
proof -
  let ?a = "two_traces Int64 [1, -32768, 3] [4, 5, 6]"
  let ?b = "two_traces Int16 [1, -32768, 3] [-32768, -32768, -32768]"
  have sh: "shape ?a = (3, 1, 2)" "shape ?b = (3, 1, 2)" by (simp_all add: two_traces_def)
  have agree: "\<forall>j<3. 1 \<le> j + 2 \<and> j \<le> 1 + 2 \<longrightarrow> cells ?a (j, 0, 0) = cells ?b (j, 0, 0)"
    by (simp add: two_traces_def)
  show ?thesis
    by (rule window_determines_sample [OF sh _ _ _ _ _ agree]) simp_all
qed

section \<open>Gaps next to the boundary\<close>

text \<open>
  Claim C8 says that in every trace that begins with two sentinels the sample at position 1
  remains the sentinel. The original value is copied there, but into a 16-bit array, and the
  sentinel is a parameter of the call: in the 64-bit trace \<open>[40000, 40000, 5]\<close> with the
  sentinel \<open>40000\<close> the branch \<open>left == no_data and z == 1\<close> copies \<open>40000\<close>, which is
  stored as \<open>-25536\<close>.
\<close>

theorem edge_gap_counterexample:
  "cells (single_trace Int64 [40000, 40000, 5]) (0, 0, 0) = 40000 \<and>
   cells (single_trace Int64 [40000, 40000, 5]) (1, 0, 0) = 40000 \<and>
   cells (single_trace Int64 [40000, 40000, 5]) (2, 0, 0) \<noteq> 40000 \<and>
   filled_sample (single_trace Int64 [40000, 40000, 5]) 40000 1 0 0 = Some (-25536)"
  by code_simp

text \<open>
  Claim C8, amended. For every trace of at least three samples that begins with two
  sentinels, the sample at position 1 is not resolved: the original value is copied, so the
  output there is the sentinel cast to 16 bits, and remains the sentinel whenever the
  sentinel is representable as a 16-bit signed integer (as the default \<open>-32768\<close> is).
  Symmetrically, a sentinel at position \<open>T-2\<close> whose right neighbour is the sentinel is
  copied in the same way. (The third sample need not be valid for this.)
\<close>

theorem edge_gap_copied:
  assumes "shape arr = (T, R, C)" "y < R" "x < C" "3 \<le> T"
  shows "\<exists>res. interpolate_numba arr no_data = Some res \<and>
           (cells arr (0, y, x) = no_data \<and> cells arr (1, y, x) = no_data
              \<longrightarrow> cells res (1, y, x) = cast_int 16 no_data \<and>
                  (representable Int16 no_data \<longrightarrow> cells res (1, y, x) = no_data)) \<and>
           (cells arr (T - 2, y, x) = no_data \<and> cells arr (T - 1, y, x) = no_data
              \<longrightarrow> cells res (T - 2, y, x) = cast_int 16 no_data \<and>
                  (representable Int16 no_data \<longrightarrow> cells res (T - 2, y, x) = no_data))"
proof -
  obtain res where res: "interpolate_numba arr no_data = Some res"
    and samples: "\<forall>z y x v. z < T \<longrightarrow> y < R \<longrightarrow> x < C \<longrightarrow> new_value arr no_data z y x = Some v
       \<longrightarrow> cells res (z, y, x) = cast_int 16 v"
    using interpolate_numba_samples [OF assms(1)] by blast
  have left: "cells res (1, y, x) = cast_int 16 no_data"
    if "cells arr (0, y, x) = no_data \<and> cells arr (1, y, x) = no_data"
  proof -
    have "new_value arr no_data 1 y x = Some no_data"
      using new_value_second_left [OF assms(1,2,3)] assms(4) that by simp
    moreover have "1 < T" using assms(4) by simp
    ultimately show ?thesis using samples assms(2,3) by blast
  qed
  have right: "cells res (T - 2, y, x) = cast_int 16 no_data"
    if "cells arr (T - 2, y, x) = no_data \<and> cells arr (T - 1, y, x) = no_data"
  proof -
    have sh: "shape arr = (Suc (Suc (T - 2)), R, C)" using assms(1,4) by simp
    have "Suc (T - 2) = T - 1" using assms(4) by simp
    then have "new_value arr no_data (T - 2) y x = Some no_data"
      using new_value_penultimate_right [OF sh assms(2,3)] assms(4) that by simp
    moreover have "T - 2 < T" using assms(4) by simp
    ultimately show ?thesis using samples assms(2,3) by blast
  qed
  have left_rep: "cells res (1, y, x) = no_data"
    if "cells arr (0, y, x) = no_data \<and> cells arr (1, y, x) = no_data"
      "representable Int16 no_data"
    using left [OF that(1)] cast16_small [OF that(2)] by simp
  have right_rep: "cells res (T - 2, y, x) = no_data"
    if "cells arr (T - 2, y, x) = no_data \<and> cells arr (T - 1, y, x) = no_data"
      "representable Int16 no_data"
    using right [OF that(1)] cast16_small [OF that(2)] by simp
  show ?thesis using res left right left_rep right_rep by blast
qed

theorem edge_gap_copied_witness:
  "\<exists>res. interpolate_numba
           (single_trace Int16 [-32768, -32768, 5, -32768, -32768]) (-32768) = Some res \<and>
         cells res (1, 0, 0) = -32768 \<and> cells res (3, 0, 0) = -32768"
proof -
  let ?arr = "single_trace Int16 [-32768, -32768, 5, -32768, -32768]"
  have sh: "shape ?arr = (5, 1, 1)" by (simp add: single_trace_def)
  have rep: "representable Int16 (-32768)" by (simp add: representable_def)
  have c: "cells ?arr (0, 0, 0) = -32768 \<and> cells ?arr (1, 0, 0) = -32768"
    "cells ?arr (5 - 2, 0, 0) = -32768 \<and> cells ?arr (5 - 1, 0, 0) = -32768"
    by (simp_all add: single_trace_def)
  from edge_gap_copied [OF sh, of 0 0 "-32768"] obtain res where
    r: "interpolate_numba ?arr (-32768) = Some res"
    "cells ?arr (0, 0, 0) = -32768 \<and> cells ?arr (1, 0, 0) = -32768
       \<longrightarrow> (representable Int16 (-32768) \<longrightarrow> cells res (1, 0, 0) = -32768)"
    "cells ?arr (5 - 2, 0, 0) = -32768 \<and> cells ?arr (5 - 1, 0, 0) = -32768
       \<longrightarrow> (representable Int16 (-32768) \<longrightarrow> cells res (5 - 2, 0, 0) = -32768)"
    by auto
  have "cells res (1, 0, 0) = -32768" using r(2) c(1) rep by blast
  moreover have "cells res (5 - 2, 0, 0) = -32768" using r(3) c(2) rep by blast
  then have "cells res (3, 0, 0) = -32768" by simp
  ultimately show ?thesis using r(1) by blast
qed

section \<open>A run of three sentinels\<close>

text \<open>
  Claim C9 says that the middle sample of a run of three sentinels between valid values
  \<open>a\<close> and \<open>b\<close> becomes the truncated average of \<open>a\<close> and \<open>b\<close>, for every trace. The
  value is stored in a 16-bit array: in a 64-bit volume with \<open>a = b = 40000\<close> the output
  is \<open>-25536\<close>, which is not their average under any rounding.
\<close>

theorem triple_gap_counterexample:
  "filled_sample (single_trace Int64 [40000, -32768, -32768, -32768, 40000]) (-32768) 2 0 0
     = Some (-25536) \<and>
   (40000 + 40000) div 2 \<noteq> (-25536 :: int)"
  by code_simp

text \<open>
  Claim C9, amended. For every trace containing a run of exactly three sentinels at
  interior positions \<open>z\<close>, \<open>z+1\<close>, \<open>z+2\<close> (\<open>1 \<le> z\<close>, \<open>z+2 \<le> T-2\<close>) between valid values
  \<open>a = input[z-1]\<close> and \<open>b = input[z+3]\<close>, the middle sample is filled through the
  neighbours two steps away on both sides: \<open>output[z+1]\<close> is \<open>floor((a+b)/2)\<close> cast to 16
  bits, and equals \<open>floor((a+b)/2)\<close>, the average rounded towards minus infinity, whenever
  \<open>a\<close> and \<open>b\<close> are representable as 16-bit signed integers; the two outer samples are the
  sentinel cast to 16 bits, so they remain the sentinel whenever it is representable as a
  16-bit signed integer. (The witness has \<open>a + b = -3\<close> and the output \<open>-2\<close>.)
\<close>

theorem triple_gap_middle_filled:
  assumes "shape arr = (T, R, C)" "y < R" "x < C" "1 \<le> z" "z + 2 \<le> T - 2"
    and "cells arr (z - 1, y, x) = a" "cells arr (z + 3, y, x) = b"
    and "a \<noteq> no_data" "b \<noteq> no_data"
    and "cells arr (z, y, x) = no_data" "cells arr (z + 1, y, x) = no_data"
      "cells arr (z + 2, y, x) = no_data"
  shows "\<exists>res. interpolate_numba arr no_data = Some res \<and>
           cells res (z + 1, y, x) = cast_int 16 ((a + b) div 2) \<and>
           cells res (z, y, x) = cast_int 16 no_data \<and>
           cells res (z + 2, y, x) = cast_int 16 no_data \<and>
           (representable Int16 a \<and> representable Int16 b \<longrightarrow>
              cells res (z + 1, y, x) = (a + b) div 2) \<and>
           (representable Int16 no_data \<longrightarrow>
              cells res (z, y, x) = no_data \<and> cells res (z + 2, y, x) = no_data)"
proof -
  obtain res where res: "interpolate_numba arr no_data = Some res"
    and samples: "\<forall>z y x v. z < T \<longrightarrow> y < R \<longrightarrow> x < C \<longrightarrow> new_value arr no_data z y x = Some v
       \<longrightarrow> cells res (z, y, x) = cast_int 16 v"
    using interpolate_numba_samples [OF assms(1)] by blast
  have b: "0 < z" "z + 3 < T" using assms(4,5) by linarith+
  have in_range: "z < T" "z + 1 < T" "z + 2 < T" using b by simp_all
  have "new_value arr no_data z y x = Some no_data"
    using new_value_run_first [OF assms(1,2,3) b _ assms(10,11,12)] assms(6,8) by simp
  then have first: "cells res (z, y, x) = cast_int 16 no_data"
    using samples in_range(1) assms(2,3) by blast
  have "new_value arr no_data (z + 1) y x = Some (mean2 a b)"
    using new_value_run_middle [OF assms(1,2,3) b _ _ assms(10,11,12)] assms(6,7,8,9) by simp
  then have "cells res (z + 1, y, x) = cast_int 16 (mean2 a b)"
    using samples in_range(2) assms(2,3) by blast
  then have middle: "cells res (z + 1, y, x) = cast_int 16 ((a + b) div 2)"
    by (simp only: cast16_mean2)
  have "new_value arr no_data (z + 2) y x = Some no_data"
    using new_value_run_last [OF assms(1,2,3) b _ assms(10,11,12)] assms(7,9) by simp
  then have last: "cells res (z + 2, y, x) = cast_int 16 no_data"
    using samples in_range(3) assms(2,3) by blast
  have "cells res (z + 1, y, x) = (a + b) div 2"
    if "representable Int16 a \<and> representable Int16 b"
  proof -
    have "representable Int16 ((a + b) div 2)"
      using that by (simp add: representable_def) linarith
    then show ?thesis using middle by (simp only: cast16_small)
  qed
  moreover have "cells res (z, y, x) = no_data \<and> cells res (z + 2, y, x) = no_data"
    if "representable Int16 no_data"
    using first last cast16_small [OF that] by simp
  ultimately show ?thesis using res first middle last by blast
qed

theorem triple_gap_middle_filled_witness:
  "\<exists>res. interpolate_numba
           (single_trace Int16 [-1, -32768, -32768, -32768, -2]) (-32768) = Some res \<and>
         cells res (1, 0, 0) = -32768 \<and> cells res (2, 0, 0) = -2 \<and>
         cells res (3, 0, 0) = -32768"
proof -
  let ?arr = "single_trace Int16 [-1, -32768, -32768, -32768, -2]"
  have sh: "shape ?arr = (5, 1, 1)" by (simp add: single_trace_def)
  have c: "cells ?arr (1 - 1, 0, 0) = -1" "cells ?arr (1 + 3, 0, 0) = -2"
    by (simp_all add: single_trace_def)
  have g: "cells ?arr (1, 0, 0) = -32768" "cells ?arr (1 + 1, 0, 0) = -32768"
    "cells ?arr (1 + 2, 0, 0) = -32768"
    by (simp_all add: single_trace_def)
  have rep: "representable Int16 (-1) \<and> representable Int16 (-2)" "representable Int16 (-32768)"
    by (simp_all add: representable_def)
  from triple_gap_middle_filled [OF sh _ _ _ _ c _ _ g] obtain res where
    r: "interpolate_numba ?arr (-32768) = Some res"
    "representable Int16 (-1) \<and> representable Int16 (-2)
       \<longrightarrow> cells res (1 + 1, 0, 0) = (-1 + -2) div 2"
    "representable Int16 (-32768)
       \<longrightarrow> cells res (1, 0, 0) = -32768 \<and> cells res (1 + 2, 0, 0) = -32768"
    by auto
  have n: "(1::nat) + 1 = 2" "(1::nat) + 2 = 3" by simp_all
  have m: "cells res (2, 0, 0) = -2" using r(2) rep(1) unfolding n by simp
  have o: "cells res (1, 0, 0) = -32768" "cells res (3, 0, 0) = -32768"
    using r(3) rep(2) unfolding n by simp_all
  show ?thesis using r(1) m o by blast
qed

section \<open>Reads stay inside the array\<close>

text \<open>
  Claim C10. Every array read of the fill is within bounds along the time axis. In this
  model a read at a negative or past-the-end index is the failure \<open>None\<close>
  (\<open>getitem_Some_iff\<close>) and a failure ends the run, so a read of \<open>z-2\<close> with \<open>z < 2\<close> or
  of \<open>z+2\<close> with \<open>z > T-3\<close> on the path taken would make \<open>new_value\<close> fail. For every
  volume with \<open>T \<ge> 3\<close> (and in fact for every volume) no sample fails and the run returns
  a result.
\<close>

theorem reads_in_bounds:
  assumes "shape arr = (T, R, C)" "3 \<le> T"
  shows "(\<forall>z<T. \<forall>y<R. \<forall>x<C. new_value arr no_data z y x \<noteq> None) \<and>
         interpolate_numba arr no_data \<noteq> None"
proof -
  have "new_value arr no_data z y x \<noteq> None" if "z < T" "y < R" "x < C" for z y x
    using new_value_defined [OF assms(1) that] by auto
  moreover have "interpolate_numba arr no_data \<noteq> None"
    using interpolate_numba_samples [OF assms(1), of no_data] by auto
  ultimately show ?thesis by blast
qed

theorem reads_in_bounds_witness:
  "new_value (single_trace Int16 [5, -32768, 7, -32768, -32768, 9, -32768]) (-32768) 4 0 0
     \<noteq> None \<and>
   interpolate_numba (single_trace Int16 [5, -32768, 7, -32768, -32768, 9, -32768]) (-32768)
     \<noteq> None"
proof -
  have sh: "shape (single_trace Int16 [5, -32768, 7, -32768, -32768, 9, -32768]) = (7, 1, 1)"
    by (simp add: single_trace_def)
  from reads_in_bounds [OF sh, of "-32768"] show ?thesis by simp
qed

end
